theory Spec2Isabelle
  imports Main
begin

section \<open>dsorm: SQL fragment composition\<close>

text \<open>
  A shallow embedding of \<^verbatim>\<open>src/dsorm/dsorm.py\<close>: the utility functions
  \<^verbatim>\<open>ds_name\<close>, \<^verbatim>\<open>ds_sql\<close>, \<^verbatim>\<open>joinmap\<close>, \<^verbatim>\<open>ds_where\<close> and
  \<^verbatim>\<open>ds_quote\<close>, the classes \<^verbatim>\<open>Where\<close>, \<^verbatim>\<open>Where.Comparison\<close>,
  \<^verbatim>\<open>Statement\<close>, \<^verbatim>\<open>Column\<close>, \<^verbatim>\<open>ForeignKey\<close> and \<^verbatim>\<open>Table\<close>, and the
  registration directory of \<^verbatim>\<open>Database\<close>. Connections, cursors and hooks are not
  modelled.
\<close>

subsection \<open>Errors\<close>

text \<open>
  The module defines no exception class. What it raises are Python's built-in exceptions:
  \<^verbatim>\<open>KeyError\<close> (a dictionary miss), \<^verbatim>\<open>TypeError\<close> (\<^verbatim>\<open>str.join\<close> on an item that is
  not text) and \<^verbatim>\<open>AttributeError\<close> (reading \<^verbatim>\<open>name\<close> or \<^verbatim>\<open>identifier\<close> of an object
  that has none). The last three constructors are the failure kinds that the
  specification's taxonomy names; they are here so that statements about them can be
  written, and no function of this theory returns one of them.
\<close>

datatype pyerror =
    KeyError
  | TypeError
  | AttributeError
  | UnsupportedLiteralKind
  | UnknownTable
  | MalformedForeignKey

subsection \<open>Values\<close>

text \<open>
  \<^verbatim>\<open>Column\<close> is a dataclass. Its \<^verbatim>\<open>_table\<close> field is the back-reference to the
  owning table, assigned by \<^verbatim>\<open>Table.__post_init__\<close>; the module reads it only in
  \<^verbatim>\<open>Column.identifier\<close>, and only for the owner's \<^verbatim>\<open>name\<close>, so the model keeps the
  owner as a reference that carries that name (\<open>None\<close> when the table was built without
  a name).
\<close>

datatype table_ref = TableRef (ref_name: "string option")

record Column =
  name :: string
  sqltype :: string
  unique :: bool
  nullable :: bool
  pkey :: bool
  table :: "table_ref option"

text \<open>
  The Python values that the modelled functions are handed: \<^verbatim>\<open>None\<close>, booleans,
  integers, floats, text, lists, and the \<^verbatim>\<open>DSObject\<close>s \<^verbatim>\<open>Column\<close>,
  \<^verbatim>\<open>Where.Comparison\<close> (column, target, operator) and \<^verbatim>\<open>Where\<close> (its \<^verbatim>\<open>where\<close>
  field: a mapping or \<^verbatim>\<open>None\<close>). A mapping is the list of its items in insertion
  order. The module never computes with a float, it only turns one into text, so a float
  is carried as the text that \<^verbatim>\<open>str\<close> gives for it. Every value is an instance of
  the class itself: an instance of a subclass of \<^verbatim>\<open>str\<close>, for which \<^verbatim>\<open>isinstance\<close>
  and the exact type disagree, is not among the modelled values.
\<close>

datatype pyval =
    PNone
  | PBool bool
  | PInt int
  | PFloat string
  | PStr string
  | PList "pyval list"
  | PColumn Column
  | PComparison pyval pyval string
  | PWhere "(pyval \<times> pyval) list option"

type_synonym dict = "(pyval \<times> pyval) list"

text \<open>\<^verbatim>\<open>type(o)\<close>, the exact class of a value.\<close>

datatype pytype =
    T_NoneType
  | T_bool
  | T_int
  | T_float
  | T_str
  | T_list
  | T_Column
  | T_Comparison
  | T_Where

fun py_type :: "pyval \<Rightarrow> pytype" where
  "py_type PNone = T_NoneType"
| "py_type (PBool b) = T_bool"
| "py_type (PInt i) = T_int"
| "py_type (PFloat r) = T_float"
| "py_type (PStr s) = T_str"
| "py_type (PList xs) = T_list"
| "py_type (PColumn c) = T_Column"
| "py_type (PComparison c t operator) = T_Comparison"
| "py_type (PWhere w) = T_Where"

text \<open>
  \<^verbatim>\<open>isinstance\<close> against \<^verbatim>\<open>str\<close>, \<^verbatim>\<open>collections.abc.Iterable\<close> (text and lists
  have \<^verbatim>\<open>__iter__\<close>; the dataclasses have not) and \<^verbatim>\<open>DSObject\<close>.
\<close>

fun isinstance_str :: "pyval \<Rightarrow> bool" where
  "isinstance_str (PStr s) = True"
| "isinstance_str _ = False"

fun isinstance_Iterable :: "pyval \<Rightarrow> bool" where
  "isinstance_Iterable (PStr s) = True"
| "isinstance_Iterable (PList xs) = True"
| "isinstance_Iterable _ = False"

fun isinstance_DSObject :: "pyval \<Rightarrow> bool" where
  "isinstance_DSObject (PColumn c) = True"
| "isinstance_DSObject (PComparison c t operator) = True"
| "isinstance_DSObject (PWhere w) = True"
| "isinstance_DSObject _ = False"

text \<open>
  The key of a dictionary must be hashable. \<^verbatim>\<open>None\<close>, booleans, numbers and text
  are; a list is not, and neither are the dataclasses, which define \<^verbatim>\<open>__eq__\<close> and
  no \<^verbatim>\<open>__hash__\<close>.
\<close>

fun hashable :: "pyval \<Rightarrow> bool" where
  "hashable PNone = True"
| "hashable (PBool b) = True"
| "hashable (PInt i) = True"
| "hashable (PFloat r) = True"
| "hashable (PStr s) = True"
| "hashable (PList xs) = False"
| "hashable (PColumn c) = False"
| "hashable (PComparison c t operator) = False"
| "hashable (PWhere w) = False"

text \<open>Iterating over a value: a list gives its items, text its characters.\<close>

fun py_iter :: "pyval \<Rightarrow> pyval list" where
  "py_iter (PList xs) = xs"
| "py_iter (PStr s) = map (\<lambda>c. PStr [c]) s"
| "py_iter _ = []"

subsection \<open>Text\<close>

text \<open>\<^verbatim>\<open>str\<close> of an integer: its decimal digits, with a minus sign when negative.\<close>

fun str_nat :: "nat \<Rightarrow> string" where
  "str_nat n =
     (if n < 10 then [''0123456789'' ! n]
      else str_nat (n div 10) @ [''0123456789'' ! (n mod 10)])"

declare str_nat.simps [simp del]

definition str_int :: "int \<Rightarrow> string" where
  "str_int i = (if i < 0 then CHR ''-'' # str_nat (nat (- i)) else str_nat (nat i))"

text \<open>The number that a text of decimal digits, with an optional minus sign, denotes.\<close>

definition digit_value :: "char \<Rightarrow> nat" where
  "digit_value c = of_char c - 48"

definition decimal_nat :: "string \<Rightarrow> nat" where
  "decimal_nat s = foldl (\<lambda>a c. 10 * a + digit_value c) 0 s"

definition decimal_int :: "string \<Rightarrow> int" where
  "decimal_int s =
     (case s of
        [] \<Rightarrow> 0
      | c # cs \<Rightarrow> if c = CHR ''-'' then - int (decimal_nat cs) else int (decimal_nat s))"

text \<open>
  \<^verbatim>\<open>Column.identifier\<close>: \<^verbatim>\<open>table.name + "." + name\<close> when the column has a table
  and that table's name is truthy (neither \<^verbatim>\<open>None\<close> nor empty), else \<^verbatim>\<open>name\<close>.
\<close>

definition Column_identifier :: "Column \<Rightarrow> string" where
  "Column_identifier self =
     (case Column.table self of
        None \<Rightarrow> Column.name self
      | Some t \<Rightarrow>
          (case ref_name t of
             None \<Rightarrow> Column.name self
           | Some n \<Rightarrow> if n \<noteq> [] then n @ ''.'' @ Column.name self else Column.name self))"

text \<open>
  What an f-string puts for \<^verbatim>\<open>{x}\<close>, that is \<^verbatim>\<open>str(x)\<close>. A \<^verbatim>\<open>Column\<close> defines
  \<^verbatim>\<open>__repr__\<close> as its identifier. For a list and for the dataclasses without a
  \<^verbatim>\<open>__repr__\<close> of their own Python gives the \<^verbatim>\<open>repr\<close> of the parts, which is not
  modelled: the function is left unspecified there, and no result below depends on it.
\<close>

fun py_format :: "pyval \<Rightarrow> string" where
  "py_format PNone = ''None''"
| "py_format (PBool b) = (if b then ''True'' else ''False'')"
| "py_format (PInt i) = str_int i"
| "py_format (PFloat r) = r"
| "py_format (PStr s) = s"
| "py_format (PColumn c) = Column_identifier c"

text \<open>\<^verbatim>\<open>sep.join(items)\<close> on texts.\<close>

fun str_join :: "string \<Rightarrow> string list \<Rightarrow> string" where
  "str_join sep [] = []"
| "str_join sep [x] = x"
| "str_join sep (x # y # ys) = x @ sep @ str_join sep (y # ys)"

text \<open>
  \<^verbatim>\<open>sep.join(map(f, o))\<close>: \<^verbatim>\<open>join\<close> first draws every item from the \<^verbatim>\<open>map\<close>
  object, so the first call of \<^verbatim>\<open>f\<close> that raises ends it with that exception; then
  an item that is not text raises \<^verbatim>\<open>TypeError\<close>.
\<close>

fun consume :: "(pyerror + 'a) list \<Rightarrow> pyerror + 'a list" where
  "consume [] = Inr []"
| "consume (Inl e # rs) = Inl e"
| "consume (Inr v # rs) = (case consume rs of Inl e \<Rightarrow> Inl e | Inr vs \<Rightarrow> Inr (v # vs))"

fun str_items :: "pyval list \<Rightarrow> pyerror + string list" where
  "str_items [] = Inr []"
| "str_items (PStr s # vs) =
     (case str_items vs of Inl e \<Rightarrow> Inl e | Inr ss \<Rightarrow> Inr (s # ss))"
| "str_items (v # vs) = Inl TypeError"

definition py_join :: "string \<Rightarrow> (pyerror + pyval) list \<Rightarrow> pyerror + pyval" where
  "py_join sep rs =
     (case consume rs of
        Inl e \<Rightarrow> Inl e
      | Inr vs \<Rightarrow>
          (case str_items vs of
             Inl e \<Rightarrow> Inl e
           | Inr ss \<Rightarrow> Inr (PStr (str_join sep ss))))"

subsection \<open>Utility functions\<close>

definition LINE_AND_SEPERATOR :: string where
  "LINE_AND_SEPERATOR = [CHR 0x0A, CHR 0x09] @ ''AND ''"

text \<open>
  \<^verbatim>\<open>ds_name(o, qualify)\<close>. Of the modelled objects only a \<^verbatim>\<open>Column\<close> has the
  attributes \<^verbatim>\<open>name\<close> and \<^verbatim>\<open>identifier\<close>.
\<close>

fun ds_name :: "pyval \<Rightarrow> bool \<Rightarrow> pyerror + pyval" where
  "ds_name (PColumn c) qualify =
     (if qualify then Inr (PStr (Column_identifier c)) else Inr (PStr (Column.name c)))"
| "ds_name (PComparison c t operator) qualify = Inl AttributeError"
| "ds_name (PWhere w) qualify = Inl AttributeError"
| "ds_name ob qualify = Inr ob"

definition ds_qname :: "pyval \<Rightarrow> pyerror + pyval" where
  "ds_qname ob = ds_name ob True"

definition joinmap :: "pyval \<Rightarrow> (pyval \<Rightarrow> pyerror + pyval) \<Rightarrow> string \<Rightarrow> pyerror + pyval" where
  "joinmap ob f seperator =
     (if isinstance_Iterable ob \<and> \<not> isinstance_str ob
      then py_join seperator (map f (py_iter ob))
      else f ob)"

text \<open>
  \<^verbatim>\<open>ds_quote\<close> looks the cast up in a dictionary keyed by the exact type of the value;
  a type that is not a key raises \<^verbatim>\<open>KeyError\<close>.
\<close>

definition ds_quote :: "pyval \<Rightarrow> pyerror + pyval" where
  "ds_quote ob =
     (case map_of
             [(T_str, \<lambda>x. PStr ([CHR 0x27] @ py_format x @ [CHR 0x27])),
              (T_int, \<lambda>x. PStr (py_format x)),
              (T_float, \<lambda>x. PStr (py_format x))]
             (py_type ob) of
        None \<Rightarrow> Inl KeyError
      | Some cast \<Rightarrow> Inr (cast ob))"

text \<open>
  The argument of \<^verbatim>\<open>ds_where\<close>: a \<^verbatim>\<open>Where\<close> object (given by its \<^verbatim>\<open>where\<close>
  field), a mapping, or \<^verbatim>\<open>None\<close>, the default of \<^verbatim>\<open>Table.select\<close>.
\<close>

datatype where_arg =
    WhereObject "dict option"
  | WhereDict dict
  | WhereNone

fun ds_where :: "where_arg \<Rightarrow> pyval" where
  "ds_where (WhereObject w) = PWhere w"
| "ds_where (WhereDict d) = PWhere (Some d)"
| "ds_where WhereNone = PWhere None"

subsection \<open>Rendering\<close>

definition Comparison_sql :: "pyval \<Rightarrow> pyval \<Rightarrow> string \<Rightarrow> pyerror + pyval" where
  "Comparison_sql col target operator =
     (case ds_quote target of
        Inl e \<Rightarrow> Inl e
      | Inr q \<Rightarrow> Inr (PStr (py_format col @ '' '' @ operator @ '' '' @ py_format q)))"

definition Column_sql :: "Column \<Rightarrow> string" where
  "Column_sql self =
     str_join '' ''
       ([Column.name self, sqltype self]
        @ (if \<not> nullable self then [''NOT NULL''] else [])
        @ (if unique self then [''UNIQUE''] else [])
        @ (if pkey self then [''PRIMARY KEY''] else []))"

text \<open>
  The loop of \<^verbatim>\<open>Where.sql\<close>: one \<^verbatim>\<open>Comparison\<close>, with the default operator, for
  every item of the mapping whose value is text.
\<close>

definition clause_list :: "dict \<Rightarrow> pyval list" where
  "clause_list d =
     map (\<lambda>(k, v). PComparison k v ''='') (filter (\<lambda>(k, v). isinstance_str v) d)"

lemma joinmap_cong [fundef_cong]:
  "ob1 = ob2 \<Longrightarrow> s1 = s2 \<Longrightarrow> (\<And>x. x = ob2 \<or> x \<in> set (py_iter ob2) \<Longrightarrow> f x = g x)
   \<Longrightarrow> joinmap ob1 f s1 = joinmap ob2 g s2"
  unfolding joinmap_def by (auto cong: map_cong)

text \<open>
  \<^verbatim>\<open>ds_sql\<close> calls the \<^verbatim>\<open>sql\<close> method of a \<^verbatim>\<open>DSObject\<close> and returns anything else
  as it is; \<^verbatim>\<open>Where.sql\<close> renders its comparisons through \<^verbatim>\<open>ds_sql\<close>.
\<close>

function ds_sql :: "pyval \<Rightarrow> pyerror + pyval"
  and Where_sql :: "dict option \<Rightarrow> pyerror + pyval" where
  "ds_sql (PColumn c) = Inr (PStr (Column_sql c))"
| "ds_sql (PComparison c t operator) = Comparison_sql c t operator"
| "ds_sql (PWhere w) = Where_sql w"
| "ds_sql PNone = Inr PNone"
| "ds_sql (PBool b) = Inr (PBool b)"
| "ds_sql (PInt i) = Inr (PInt i)"
| "ds_sql (PFloat r) = Inr (PFloat r)"
| "ds_sql (PStr s) = Inr (PStr s)"
| "ds_sql (PList xs) = Inr (PList xs)"
| "Where_sql None = Inr (PStr [])"
| "Where_sql (Some d) =
     (if d = [] then Inr (PStr [])
      else case joinmap (PList (clause_list d)) ds_sql LINE_AND_SEPERATOR of
             Inl e \<Rightarrow> Inl e
           | Inr r \<Rightarrow> Inr (PStr (''WHERE '' @ py_format r)))"
  by pat_completeness auto
termination
  by (relation "measure (\<lambda>x. case x of Inl (PWhere w) \<Rightarrow> 2 | Inl _ \<Rightarrow> 0 | Inr w \<Rightarrow> 1)")
    (auto simp: clause_list_def)

subsection \<open>Statements\<close>

text \<open>
  The members of the five clause-order enumerations, and for each enumeration its
  members in the order of their definition, which is the order in which iterating over
  an \<^verbatim>\<open>Enum\<close> class yields them.
\<close>

datatype clause =
    CreateTableType_CREATE
  | CreateTableType_COLUMN
  | CreateTableType_CONSTRAINT
  | SelectType_CTE
  | SelectType_SELECT
  | SelectType_FROM
  | SelectType_JOIN
  | SelectType_WHERE
  | SelectType_GROUP
  | SelectType_HAVING
  | SelectType_ORDER
  | SelectType_LIMIT
  | SelectType_OFFSET
  | DeleteType_FROM
  | DeleteType_WHERE
  | InsertType_CTE
  | InsertType_INSERT
  | InsertType_COLUMNS
  | InsertType_FROM
  | InsertType_VALUES
  | UpdateType_CTE
  | UpdateType_UPDATE
  | UpdateType_SET
  | UpdateType_WHERE

datatype statement_type =
    CreateTableType
  | SelectType
  | DeleteType
  | InsertType
  | UpdateType

fun members :: "statement_type \<Rightarrow> clause list" where
  "members CreateTableType =
     [CreateTableType_CREATE, CreateTableType_COLUMN, CreateTableType_CONSTRAINT]"
| "members SelectType =
     [SelectType_CTE, SelectType_SELECT, SelectType_FROM, SelectType_JOIN,
      SelectType_WHERE, SelectType_GROUP, SelectType_HAVING, SelectType_ORDER,
      SelectType_LIMIT, SelectType_OFFSET]"
| "members DeleteType = [DeleteType_FROM, DeleteType_WHERE]"
| "members InsertType =
     [InsertType_CTE, InsertType_INSERT, InsertType_COLUMNS, InsertType_FROM,
      InsertType_VALUES]"
| "members UpdateType =
     [UpdateType_CTE, UpdateType_UPDATE, UpdateType_SET, UpdateType_WHERE]"

text \<open>
  \<^verbatim>\<open>Statement\<close>: \<^verbatim>\<open>components\<close> is annotated \<^verbatim>\<open>Dict[Enum, str]\<close>, here the
  list of its items in insertion order; \<^verbatim>\<open>vals\<close> is the field \<^verbatim>\<open>values\<close>. The
  field \<^verbatim>\<open>_db\<close> is left out.
\<close>

record Statement =
  statement_type :: statement_type
  components :: "(clause \<times> string) list"
  vals :: "dict option"

definition Statement_sql :: "Statement \<Rightarrow> pyerror + pyval" where
  "Statement_sql self =
     py_join [CHR 0x0A]
       (map (\<lambda>clause.
               case map_of (components self) clause of
                 None \<Rightarrow> Inl KeyError
               | Some content \<Rightarrow> ds_sql (PStr content))
          (filter (\<lambda>clause. clause \<in> fst ` set (components self))
             (members (statement_type self))))"

subsection \<open>Tables and foreign keys\<close>

text \<open>
  \<^verbatim>\<open>Table\<close> and \<^verbatim>\<open>ForeignKey\<close> are dataclasses that refer to each other: a
  table lists its constraints and a foreign key holds the table it references. The
  columns of a table are \<^verbatim>\<open>Column\<close> objects (\<^verbatim>\<open>Table.__post_init__\<close> assigns
  their \<^verbatim>\<open>table\<close>), its name is text or \<^verbatim>\<open>None\<close>, the default.
\<close>

datatype Table =
    Table (column: "Column list") (name: "string option")
      (constraints: "ForeignKey list") (schema: string)
and ForeignKey =
    ForeignKey (column: pyval) (reference_table: Table) (reference_column: "pyval list")

text \<open>A name as a value: \<^verbatim>\<open>None\<close> or text.\<close>

fun name_value :: "string option \<Rightarrow> pyval" where
  "name_value None = PNone"
| "name_value (Some n) = PStr n"

text \<open>
  The registration directory, \<^verbatim>\<open>Database.information_schema\<close>: a
  \<^verbatim>\<open>defaultdict(dict)\<close> from the class name of an object to a dictionary from the
  object's name to the object. Reading a class name that has no entry yet gives the empty
  dictionary, so the directory is a total function to partial maps.
\<close>

datatype registered =
    RColumn Column
  | RTable Table
  | RForeignKey ForeignKey

record Database =
  information_schema :: "string \<Rightarrow> (pyval \<rightharpoonup> registered)"

definition empty_Database :: Database where
  "empty_Database = \<lparr>information_schema = (\<lambda>kind. Map.empty)\<rparr>"

text \<open>
  \<^verbatim>\<open>RegisteredObject.__post_init__\<close>:
  \<^verbatim>\<open>db.information_schema[type(self).__name__][self.name] = self\<close>.
\<close>

definition RegisteredObject_post_init ::
  "Database \<Rightarrow> string \<Rightarrow> pyval \<Rightarrow> registered \<Rightarrow> Database" where
  "RegisteredObject_post_init db kind key self =
     db\<lparr>information_schema :=
          (information_schema db)(kind := (information_schema db kind)(key \<mapsto> self))\<rparr>"

text \<open>
  Constructing a \<^verbatim>\<open>Column\<close>: the fields as given, no table yet, and the object
  registered under its name.
\<close>

definition Column_init ::
  "Database \<Rightarrow> string \<Rightarrow> string \<Rightarrow> bool \<Rightarrow> bool \<Rightarrow> bool \<Rightarrow> Column \<times> Database" where
  "Column_init db n ty uniq nullbl pk =
     (let self = \<lparr>Column.name = n, sqltype = ty, unique = uniq, nullable = nullbl,
                   pkey = pk, table = None\<rparr>
      in (self, RegisteredObject_post_init db ''Column'' (PStr n) (RColumn self)))"

text \<open>
  Constructing a \<^verbatim>\<open>Table\<close>: every column gets the table as its owner, then the
  table is registered under its name. In Python the assignment changes the caller's
  \<^verbatim>\<open>Column\<close> objects, which the directory and any other table built from them share;
  here the columns are values, and only the columns held by the new table carry the new
  owner. A state in which one column belongs to two tables is outside this model.
\<close>

definition Table_init ::
  "Database \<Rightarrow> Column list \<Rightarrow> string option \<Rightarrow> ForeignKey list \<Rightarrow> string
   \<Rightarrow> Table \<times> Database" where
  "Table_init db cols n cons sch =
     (let self = Table (map (\<lambda>c. c\<lparr>table := Some (TableRef n)\<rparr>) cols) n cons sch
      in (self, RegisteredObject_post_init db ''Table'' (name_value n) (RTable self)))"

text \<open>
  \<^verbatim>\<open>ForeignKey.name\<close> is a property, \<^verbatim>\<open>f"Fkey on {joinmap(self.column)}"\<close>, with
  \<^verbatim>\<open>ds_name\<close> as the default item function of \<^verbatim>\<open>joinmap\<close>. Constructing a
  \<^verbatim>\<open>ForeignKey\<close> stores the three fields and registers the object under that name;
  nothing else is checked.
\<close>

definition ForeignKey_name :: "ForeignKey \<Rightarrow> pyerror + string" where
  "ForeignKey_name self =
     (case joinmap (ForeignKey.column self) (\<lambda>x. ds_name x False) '', '' of
        Inl e \<Rightarrow> Inl e
      | Inr r \<Rightarrow> Inr (''Fkey on '' @ py_format r))"

definition ForeignKey_init ::
  "Database \<Rightarrow> pyval \<Rightarrow> Table \<Rightarrow> pyval list \<Rightarrow> pyerror + ForeignKey \<times> Database" where
  "ForeignKey_init db col ref_table ref_col =
     (let self = ForeignKey col ref_table ref_col
      in case ForeignKey_name self of
           Inl e \<Rightarrow> Inl e
         | Inr n \<Rightarrow>
             Inr (self, RegisteredObject_post_init db ''ForeignKey'' (PStr n) (RForeignKey self)))"

definition Table_pkey :: "Table \<Rightarrow> pyval list" where
  "Table_pkey self = map PColumn (filter pkey (Table.column self))"

text \<open>\<^verbatim>\<open>Table.fkey(on_column=None)\<close>.\<close>

definition Table_fkey :: "Database \<Rightarrow> Table \<Rightarrow> pyval \<Rightarrow> pyerror + ForeignKey \<times> Database" where
  "Table_fkey db self on_column =
     (let primary = Table_pkey self
      in ForeignKey_init db (if on_column = PNone then PList primary else on_column)
           self primary)"

text \<open>
  \<^verbatim>\<open>Table.select(where=None, columns=None)\<close>. The f-string evaluates its parts from
  left to right: the column list, the name, the rendered predicate.
\<close>

definition Table_select :: "Table \<Rightarrow> where_arg \<Rightarrow> pyval list option \<Rightarrow> pyerror + string" where
  "Table_select self whr columns =
     (case joinmap
             (case columns of
                Some (c # cs) \<Rightarrow> PList (c # cs)
              | _ \<Rightarrow> PList (map PColumn (Table.column self)))
             ds_qname '', '' of
        Inl e \<Rightarrow> Inl e
      | Inr cols \<Rightarrow>
          (case ds_sql (ds_where whr) of
             Inl e \<Rightarrow> Inl e
           | Inr w \<Rightarrow>
               Inr (''SELECT '' @ py_format cols @ '' '' @ [CHR 0x0A] @ '' FROM ''
                    @ py_format (name_value (Table.name self)) @ '' '' @ [CHR 0x0A] @ '' ''
                    @ py_format w)))"

text \<open>
  \<^verbatim>\<open>Table.insert(data, replace=False)\<close>. \<^verbatim>\<open>data.keys()\<close> is an iterable that is
  not text, with the keys in insertion order.
\<close>

definition Table_insert :: "Table \<Rightarrow> dict \<Rightarrow> bool \<Rightarrow> pyerror + string \<times> dict" where
  "Table_insert self data replace =
     (let k = PList (map fst data)
      in case joinmap k (\<lambda>x. ds_name x False) '', '' of
           Inl e \<Rightarrow> Inl e
         | Inr ks \<Rightarrow>
             (case joinmap k (\<lambda>x. Inr (PStr ('':'' @ py_format x))) '', '' of
                Inl e \<Rightarrow> Inl e
              | Inr ps \<Rightarrow>
                  Inr ((if replace then ''REPLACE'' else ''INSERT'') @ '' INTO ''
                       @ py_format (name_value (Table.name self)) @ '' ('' @ py_format ks
                       @ '') VALUES('' @ py_format ps @ '');'',
                       data)))"

text \<open>\<^verbatim>\<open>Table.delete(where)\<close> returns the text with the argument as it was given.\<close>

definition Table_delete :: "Table \<Rightarrow> where_arg \<Rightarrow> pyerror + string \<times> where_arg" where
  "Table_delete self whr =
     (case ds_sql (ds_where whr) of
        Inl e \<Rightarrow> Inl e
      | Inr w \<Rightarrow>
          Inr (''DELETE FROM '' @ py_format (name_value (Table.name self)) @ '' ''
               @ [CHR 0x0A] @ '' '' @ py_format w,
               whr))"

text \<open>
  \<^verbatim>\<open>Database.table(o)\<close>, which \<^verbatim>\<open>query\<close>, \<^verbatim>\<open>create\<close> and \<^verbatim>\<open>delete\<close> call on
  their \<^verbatim>\<open>table: Union[Table, str]\<close> argument.
\<close>

datatype table_or_name =
    TableObject Table
  | TableName string

fun Database_table :: "Database \<Rightarrow> table_or_name \<Rightarrow> pyerror + registered" where
  "Database_table db (TableObject t) = Inr (RTable t)"
| "Database_table db (TableName n) =
     (case information_schema db ''Table'' (PStr n) of
        None \<Rightarrow> Inl KeyError
      | Some r \<Rightarrow> Inr r)"

section \<open>Properties\<close>

subsection \<open>Types\<close>

text \<open>On the modelled values \<^verbatim>\<open>isinstance(v, str)\<close> is the same as the exact type.\<close>

lemma isinstance_str_exact: "isinstance_str v \<longleftrightarrow> py_type v = T_str"
  by (cases v) simp_all

lemma hashable_not_DSObject: "hashable k \<Longrightarrow> \<not> isinstance_DSObject k"
  by (cases k) simp_all

subsection \<open>Joining\<close>

lemma consume_Inr: "consume (map Inr vs) = Inr vs"
  by (induction vs) simp_all

lemma str_items_other:
  "\<exists>v \<in> set vs. py_type v \<noteq> T_str \<Longrightarrow> str_items vs = Inl TypeError"
proof (induction vs rule: str_items.induct)
  case 1
  then show ?case by simp
next
  case (2 s vs)
  then show ?case by simp
qed simp_all

lemma py_join_other:
  assumes "\<exists>v \<in> set vs. py_type v \<noteq> T_str"
  shows "py_join sep (map Inr vs) = Inl TypeError"
  using assms by (simp add: py_join_def consume_Inr str_items_other)

lemma consume_texts:
  "consume (map (\<lambda>x. Inr (PStr (g x))) xs) = Inr (map (\<lambda>x. PStr (g x)) xs)"
  by (induction xs) simp_all

lemma str_items_texts: "str_items (map (\<lambda>x. PStr (g x)) xs) = Inr (map g xs)"
  by (induction xs) simp_all

lemma py_join_texts:
  "py_join sep (map (\<lambda>x. Inr (PStr (g x))) xs) = Inr (PStr (str_join sep (map g xs)))"
  by (simp add: py_join_def consume_texts str_items_texts)

lemma joinmap_PList: "joinmap (PList xs) f sep = py_join sep (map f xs)"
  by (simp add: joinmap_def)

lemma joinmap_PStr: "joinmap (PStr s) f sep = f (PStr s)"
  by (simp add: joinmap_def)

subsection \<open>Decimal text\<close>

text \<open>
  \<^verbatim>\<open>str\<close> of an integer is its decimal text: reading the digits back gives the
  integer.
\<close>

lemma digit_cases:
  "(d::nat) < 10 \<Longrightarrow>
   d = 0 \<or> d = 1 \<or> d = 2 \<or> d = 3 \<or> d = 4 \<or> d = 5 \<or> d = 6 \<or> d = 7 \<or> d = 8 \<or> d = 9"
  by arith

lemma digit_value_nth: "d < 10 \<Longrightarrow> digit_value (''0123456789'' ! d) = d"
  using digit_cases [of d] by (auto simp: digit_value_def)

lemma digit_nth_not_minus: "d < 10 \<Longrightarrow> ''0123456789'' ! d \<noteq> CHR ''-''"
  using digit_cases [of d] by auto

lemma decimal_nat_snoc: "decimal_nat (s @ [c]) = 10 * decimal_nat s + digit_value c"
  by (simp add: decimal_nat_def)

lemma decimal_nat_str_nat: "decimal_nat (str_nat n) = n"
proof (induction n rule: str_nat.induct)
  case (1 n)
  show ?case
  proof (cases "n < 10")
    case True
    then show ?thesis
      using digit_value_nth [of n] by (simp add: str_nat.simps [of n] decimal_nat_def)
  next
    case False
    with "1" have "decimal_nat (str_nat (n div 10)) = n div 10" by simp
    with False show ?thesis
      using digit_value_nth [of "n mod 10"]
      by (simp add: str_nat.simps [of n] decimal_nat_snoc)
  qed
qed

lemma str_nat_first: "\<exists>c cs. str_nat n = c # cs \<and> c \<noteq> CHR ''-''"
proof (induction n rule: str_nat.induct)
  case (1 n)
  show ?case
  proof (cases "n < 10")
    case True
    then show ?thesis
      using digit_nth_not_minus [of n] by (simp add: str_nat.simps [of n])
  next
    case False
    with "1" obtain c cs where "str_nat (n div 10) = c # cs" "c \<noteq> CHR ''-''" by blast
    with False show ?thesis
      by (simp add: str_nat.simps [of n])
  qed
qed

lemma decimal_int_str_int: "decimal_int (str_int i) = i"
proof (cases "i < 0")
  case True
  then show ?thesis
    by (simp add: str_int_def decimal_int_def decimal_nat_str_nat)
next
  case False
  obtain c cs where "str_nat (nat i) = c # cs" "c \<noteq> CHR ''-''"
    using str_nat_first by blast
  with False show ?thesis
    using decimal_nat_str_nat [of "nat i"]
    by (simp add: str_int_def decimal_int_def)
qed

subsection \<open>Quoting\<close>

lemma ds_quote_PStr: "ds_quote (PStr s) = Inr (PStr ([CHR 0x27] @ s @ [CHR 0x27]))"
  by (simp add: ds_quote_def)

lemma ds_quote_PInt: "ds_quote (PInt i) = Inr (PStr (str_int i))"
  by (simp add: ds_quote_def)

lemma ds_quote_PFloat: "ds_quote (PFloat r) = Inr (PStr r)"
  by (simp add: ds_quote_def)

lemma ds_quote_other:
  "py_type v \<notin> {T_str, T_int, T_float} \<Longrightarrow> ds_quote v = Inl KeyError"
  by (cases v) (simp_all add: ds_quote_def)

text \<open>
  Claim C3, as the code has it. \<^verbatim>\<open>ds_quote\<close> wraps text in single quotes, gives an
  integer as its decimal text and a float as the text of \<^verbatim>\<open>str\<close>, both unquoted, and
  fails on a value of any other type. The failure is the \<^verbatim>\<open>KeyError\<close> of the
  dictionary lookup: the module has no \<^verbatim>\<open>UnsupportedLiteralKind\<close> error.
\<close>

theorem ds_quote_by_kind:
  "ds_quote (PStr s) = Inr (PStr ([CHR 0x27] @ s @ [CHR 0x27]))
   \<and> ds_quote (PInt i) = Inr (PStr (str_int i)) \<and> decimal_int (str_int i) = i
   \<and> ds_quote (PFloat r) = Inr (PStr r)
   \<and> (py_type v \<notin> {T_str, T_int, T_float} \<longrightarrow> ds_quote v = Inl KeyError)"
  using ds_quote_other [of v]
  by (simp only: ds_quote_PStr ds_quote_PInt ds_quote_PFloat decimal_int_str_int) blast

theorem ds_quote_by_kind_witness:
  "py_type (PBool True) \<notin> {T_str, T_int, T_float}
   \<and> ds_quote (PBool True) = Inl KeyError
   \<and> ds_quote (PStr ''alice'') = Inr (PStr ([CHR 0x27] @ ''alice'' @ [CHR 0x27]))
   \<and> ds_quote (PInt (- 42)) = Inr (PStr ''-42'')
   \<and> ds_quote (PFloat ''1.5'') = Inr (PStr ''1.5'')"
  using ds_quote_by_kind [of "''alice''" "- 42" "''1.5''" "PBool True"]
  by (simp add: str_int_def str_nat.simps)

text \<open>
  Claim C3 as stated fails on a boolean: quoting \<^verbatim>\<open>True\<close> raises \<^verbatim>\<open>KeyError\<close>, not
  an \<^verbatim>\<open>UnsupportedLiteralKind\<close> error.
\<close>

theorem ds_quote_bool_counterexample:
  "ds_quote (PBool True) = Inl KeyError \<and> ds_quote (PBool True) \<noteq> Inl UnsupportedLiteralKind"
  by (simp add: ds_quote_def)

subsection \<open>joinmap\<close>

text \<open>
  Claim C10. Text is iterable, but \<^verbatim>\<open>joinmap\<close> exempts it: on a single text it
  returns the item function applied to the whole text, never a join of its characters.
  A list is rendered item by item and joined with the separator (when every item renders
  to text, the result is the separated text), and a value that is not iterable is handed
  to the item function as it is.
\<close>

theorem joinmap_text_whole:
  "isinstance_Iterable (PStr s)
   \<and> joinmap (PStr s) f sep = f (PStr s)
   \<and> joinmap (PList xs) f sep = py_join sep (map f xs)
   \<and> joinmap (PList xs) (\<lambda>x. Inr (PStr (g x))) sep = Inr (PStr (str_join sep (map g xs)))
   \<and> (\<not> isinstance_Iterable ob \<longrightarrow> joinmap ob f sep = f ob)"
  by (simp add: joinmap_PList joinmap_PStr py_join_texts) (simp add: joinmap_def)

theorem joinmap_text_whole_witness:
  "\<not> isinstance_Iterable (PInt 5)
   \<and> joinmap (PInt 5) (\<lambda>x. ds_name x False) '', '' = Inr (PInt 5)
   \<and> joinmap (PStr ''id'') (\<lambda>x. ds_name x False) '', '' = Inr (PStr ''id'')
   \<and> py_iter (PStr ''id'') = [PStr ''i'', PStr ''d'']
   \<and> joinmap (PList [PStr ''id'', PStr ''name'']) (\<lambda>x. ds_name x False) '', ''
       = Inr (PStr ''id, name'')"
  using joinmap_text_whole [of "''id''" "\<lambda>x. ds_name x False" "'', ''"
      "[PStr ''id'', PStr ''name'']" py_format "PInt 5"]
  by (simp add: py_join_def)

subsection \<open>Where\<close>

lemma clause_list_length:
  "length (clause_list d) = length (filter (\<lambda>(k, v). isinstance_str v) d)"
  by (simp add: clause_list_def)

lemma ds_sql_clause_list:
  "map ds_sql (clause_list d) =
   map (\<lambda>(k, v). Inr (PStr (py_format k @ '' = '' @ [CHR 0x27] @ py_format v @ [CHR 0x27])))
     (filter (\<lambda>(k, v). isinstance_str v) d)"
proof (induction d)
  case Nil
  then show ?case by (simp add: clause_list_def)
next
  case (Cons kv d)
  obtain k v where kv: "kv = (k, v)" by (cases kv)
  show ?case
  proof (cases v)
    case (PStr s)
    with Cons kv show ?thesis
      by (simp add: clause_list_def Comparison_sql_def ds_quote_PStr)
  qed (use Cons kv in \<open>simp_all add: clause_list_def\<close>)
qed

lemma Where_sql_nonempty:
  assumes "d \<noteq> []"
  shows "Where_sql (Some d) =
    Inr (PStr (''WHERE '' @ str_join LINE_AND_SEPERATOR
      (map (\<lambda>(k, v). py_format k @ '' = '' @ [CHR 0x27] @ py_format v @ [CHR 0x27])
         (filter (\<lambda>(k, v). isinstance_str v) d))))"
proof -
  let ?r = "\<lambda>kv. case kv of (k, v) \<Rightarrow> py_format k @ '' = '' @ [CHR 0x27] @ py_format v @ [CHR 0x27]"
  let ?xs = "filter (\<lambda>(k, v). isinstance_str v) d"
  have "map ds_sql (clause_list d) = map (\<lambda>kv. Inr (PStr (?r kv))) ?xs"
    by (simp add: ds_sql_clause_list split_def)
  then have "joinmap (PList (clause_list d)) ds_sql LINE_AND_SEPERATOR =
      Inr (PStr (str_join LINE_AND_SEPERATOR (map ?r ?xs)))"
    using py_join_texts [of LINE_AND_SEPERATOR ?r ?xs] by (simp add: joinmap_PList)
  with assms show ?thesis by simp
qed

text \<open>
  Where every value of the mapping is text, \<^verbatim>\<open>Where.sql\<close> renders one comparison
  for each item, in the order of the mapping.
\<close>

lemma Where_sql_all_text:
  assumes "d \<noteq> []" and "\<forall>(k, v) \<in> set d. py_type v = T_str"
  shows "Where_sql (Some d) =
    Inr (PStr (''WHERE '' @ str_join LINE_AND_SEPERATOR
      (map (\<lambda>(k, v). py_format k @ '' = '' @ [CHR 0x27] @ py_format v @ [CHR 0x27]) d)))"
proof -
  from assms(2) have "filter (\<lambda>(k, v). isinstance_str v) d = d"
    by (auto simp: isinstance_str_exact intro: filter_True)
  with assms(1) show ?thesis
    using Where_sql_nonempty [of d] by simp
qed

text \<open>
  Claim C1 says that a mapping with N entries renders N comparisons and that a bare
  \<^verbatim>\<open>WHERE\<close> keyword is never rendered. The code misses both on an entry whose value
  is an integer. The mapping \<^verbatim>\<open>{"id": 1}\<close> renders \<^verbatim>\<open>WHERE\<close> and a space with
  nothing after it: the guard of \<^verbatim>\<open>Where.sql\<close> tests the mapping, not the list of
  comparisons. Of \<^verbatim>\<open>{"name": "alice", "id": 1}\<close> only the comparison of \<^verbatim>\<open>name\<close>
  is rendered, although a \<^verbatim>\<open>Comparison\<close> with the integer as its target renders as
  \<^verbatim>\<open>id = 1\<close>.
\<close>

theorem Where_sql_drops_int_entry:
  "Where_sql (Some [(PStr ''id'', PInt 1)]) = Inr (PStr ''WHERE '')
   \<and> Where_sql (Some [(PStr ''name'', PStr ''alice''), (PStr ''id'', PInt 1)])
       = Inr (PStr (''WHERE name = '' @ [CHR 0x27] @ ''alice'' @ [CHR 0x27]))
   \<and> ds_sql (PComparison (PStr ''id'') (PInt 1) ''='') = Inr (PStr ''id = 1'')"
  by (simp add: clause_list_def joinmap_def py_join_def Comparison_sql_def ds_quote_def
      str_int_def str_nat.simps)

lemma clause_list_skip:
  "\<not> isinstance_str v \<Longrightarrow> clause_list (d1 @ (k, v) # d2) = clause_list (d1 @ d2)"
  by (simp add: clause_list_def)

text \<open>
  Claim C8. An item whose value is not text gives no comparison: the list of comparisons
  is the one of the mapping without that item, and so is the rendered text when other
  items remain. A mapping that is not empty and has no text value at all renders as
  \<^verbatim>\<open>WHERE\<close> and a space, with no condition after it.
\<close>

theorem Where_sql_skips_non_text:
  "(\<not> isinstance_str v \<longrightarrow> clause_list (d1 @ (k, v) # d2) = clause_list (d1 @ d2))
   \<and> (\<not> isinstance_str v \<and> d1 @ d2 \<noteq> [] \<longrightarrow>
        Where_sql (Some (d1 @ (k, v) # d2)) = Where_sql (Some (d1 @ d2)))
   \<and> (d \<noteq> [] \<and> (\<forall>(k, v) \<in> set d. \<not> isinstance_str v) \<longrightarrow>
        Where_sql (Some d) = Inr (PStr ''WHERE ''))"
proof -
  have "filter (\<lambda>(k, v). isinstance_str v) d = []" if "\<forall>(k, v) \<in> set d. \<not> isinstance_str v"
    using that by (auto simp: filter_empty_conv)
  then have "d \<noteq> [] \<and> (\<forall>(k, v) \<in> set d. \<not> isinstance_str v) \<longrightarrow>
        Where_sql (Some d) = Inr (PStr ''WHERE '')"
    using Where_sql_nonempty [of d] by auto
  then show ?thesis
    by (simp add: clause_list_skip)
qed

theorem Where_sql_skips_non_text_witness:
  "\<not> isinstance_str (PInt 1)
   \<and> Where_sql (Some ([(PStr ''name'', PStr ''alice'')] @ (PStr ''id'', PInt 1) # []))
       = Where_sql (Some ([(PStr ''name'', PStr ''alice'')] @ []))
   \<and> Where_sql (Some [(PStr ''id'', PInt 7), (PStr ''age'', PInt 30)]) = Inr (PStr ''WHERE '')"
  using Where_sql_skips_non_text [of "PInt 1" "[(PStr ''name'', PStr ''alice'')]" "PStr ''id''" "[]"
      "[(PStr ''id'', PInt 7), (PStr ''age'', PInt 30)]"]
  by simp

subsection \<open>Dispatch on literals\<close>

text \<open>A value that is no \<^verbatim>\<open>DSObject\<close> passes through \<^verbatim>\<open>ds_sql\<close> and \<^verbatim>\<open>ds_name\<close>.\<close>

lemma ds_sql_literal: "\<not> isinstance_DSObject ob \<Longrightarrow> ds_sql ob = Inr ob"
  by (cases ob) simp_all

lemma ds_name_literal: "\<not> isinstance_DSObject ob \<Longrightarrow> ds_name ob qualify = Inr ob"
  by (cases ob) simp_all

subsection \<open>Statement assembly\<close>

lemma Statement_sql_present:
  "Statement_sql self =
   Inr (PStr (str_join [CHR 0x0A]
     (List.map_filter (map_of (components self)) (members (statement_type self)))))"
proof -
  let ?m = "map_of (components self)"
  let ?ms = "filter (\<lambda>clause. clause \<in> fst ` set (components self)) (members (statement_type self))"
  have present: "(\<lambda>clause. clause \<in> fst ` set (components self)) = (\<lambda>clause. ?m clause \<noteq> None)"
    by (simp add: map_of_eq_None_iff)
  have "map (\<lambda>clause. case ?m clause of None \<Rightarrow> Inl KeyError | Some content \<Rightarrow> ds_sql (PStr content)) ?ms
      = map (\<lambda>clause. Inr (PStr (the (?m clause)))) ?ms"
    by (rule map_cong) (auto simp: present)
  then have "Statement_sql self = Inr (PStr (str_join [CHR 0x0A] (map (\<lambda>clause. the (?m clause)) ?ms)))"
    unfolding Statement_sql_def by (simp only: py_join_texts)
  then show ?thesis
    by (simp add: List.map_filter_def present comp_def)
qed

text \<open>
  Claim C2. For each of the five statement kinds, \<^verbatim>\<open>Statement.sql\<close> is the contents
  of the clauses that the mapping holds, taken in the order in which the kind's
  enumeration declares its members and joined by line breaks; a clause that the mapping
  does not hold is skipped. With an empty mapping the text is empty. Two mappings with the
  same items, inserted in whatever order, render the same text.
\<close>

theorem Statement_sql_declared_order:
  "Statement_sql self =
     Inr (PStr (str_join [CHR 0x0A]
       (List.map_filter (map_of (components self)) (members (statement_type self)))))
   \<and> Statement_sql \<lparr>statement_type = kind, components = [], vals = v\<rparr> = Inr (PStr [])
   \<and> (distinct (map fst cs) \<and> distinct (map fst cs') \<and> set cs = set cs' \<longrightarrow>
        Statement_sql \<lparr>statement_type = kind, components = cs, vals = v\<rparr>
        = Statement_sql \<lparr>statement_type = kind, components = cs', vals = v\<rparr>)"
proof -
  have "Statement_sql \<lparr>statement_type = kind, components = [], vals = v\<rparr> = Inr (PStr [])"
    by (simp add: Statement_sql_def py_join_def)
  moreover have "Statement_sql \<lparr>statement_type = kind, components = cs, vals = v\<rparr>
        = Statement_sql \<lparr>statement_type = kind, components = cs', vals = v\<rparr>"
    if "distinct (map fst cs)" "distinct (map fst cs')" "set cs = set cs'"
  proof -
    from that have "map_of cs = map_of cs'"
      by (simp add: map_of_inject_set)
    then show ?thesis
      by (simp add: Statement_sql_present)
  qed
  ultimately show ?thesis
    using Statement_sql_present [of self] by blast
qed

theorem Statement_sql_declared_order_witness:
  "distinct (map fst [(SelectType_WHERE, ''WHERE x = 1''), (SelectType_SELECT, ''SELECT a''),
      (SelectType_FROM, ''FROM t'')])
   \<and> distinct (map fst [(SelectType_SELECT, ''SELECT a''), (SelectType_FROM, ''FROM t''),
      (SelectType_WHERE, ''WHERE x = 1'')])
   \<and> set [(SelectType_WHERE, ''WHERE x = 1''), (SelectType_SELECT, ''SELECT a''),
      (SelectType_FROM, ''FROM t'')]
     = set [(SelectType_SELECT, ''SELECT a''), (SelectType_FROM, ''FROM t''),
      (SelectType_WHERE, ''WHERE x = 1'')]
   \<and> Statement_sql \<lparr>statement_type = SelectType,
        components = [(SelectType_WHERE, ''WHERE x = 1''), (SelectType_SELECT, ''SELECT a''),
          (SelectType_FROM, ''FROM t'')], vals = None\<rparr>
     = Inr (PStr (''SELECT a'' @ [CHR 0x0A] @ ''FROM t'' @ [CHR 0x0A] @ ''WHERE x = 1''))
   \<and> Statement_sql \<lparr>statement_type = SelectType,
        components = [(SelectType_SELECT, ''SELECT a''), (SelectType_FROM, ''FROM t''),
          (SelectType_WHERE, ''WHERE x = 1'')], vals = None\<rparr>
     = Inr (PStr (''SELECT a'' @ [CHR 0x0A] @ ''FROM t'' @ [CHR 0x0A] @ ''WHERE x = 1''))"
  using Statement_sql_declared_order [of
      "\<lparr>statement_type = SelectType,
        components = [(SelectType_WHERE, ''WHERE x = 1''), (SelectType_SELECT, ''SELECT a''),
          (SelectType_FROM, ''FROM t'')], vals = None\<rparr>"
      SelectType None
      "[(SelectType_WHERE, ''WHERE x = 1''), (SelectType_SELECT, ''SELECT a''),
          (SelectType_FROM, ''FROM t'')]"
      "[(SelectType_SELECT, ''SELECT a''), (SelectType_FROM, ''FROM t''),
          (SelectType_WHERE, ''WHERE x = 1'')]"]
  by (auto simp: List.map_filter_def)

subsection \<open>Table.insert\<close>

lemma ds_name_text_keys:
  assumes "\<forall>k \<in> set ks. isinstance_str k"
  shows "map (\<lambda>x. ds_name x False) ks = map (\<lambda>x. Inr (PStr (py_format x))) ks"
proof (rule map_cong)
  fix k assume "k \<in> set ks"
  with assms have "isinstance_str k" by blast
  then show "ds_name k False = Inr (PStr (py_format k))"
    by (cases k) simp_all
qed simp

lemma Table_insert_text_keys:
  assumes "\<forall>(k, v) \<in> set data. isinstance_str k"
  shows "Table_insert self data replace =
     Inr ((if replace then ''REPLACE'' else ''INSERT'') @ '' INTO ''
          @ py_format (name_value (Table.name self))
          @ '' ('' @ str_join '', '' (map (\<lambda>(k, v). py_format k) data)
          @ '') VALUES('' @ str_join '', '' (map (\<lambda>(k, v). '':'' @ py_format k) data) @ '');'',
          data)"
proof -
  let ?ks = "map fst data"
  from assms have "\<forall>k \<in> set ?ks. isinstance_str k" by auto
  then have "joinmap (PList ?ks) (\<lambda>x. ds_name x False) '', ''
      = Inr (PStr (str_join '', '' (map py_format ?ks)))"
    using py_join_texts [of "'', ''" py_format ?ks]
    by (simp only: joinmap_PList ds_name_text_keys)
  moreover have "joinmap (PList ?ks) (\<lambda>x. Inr (PStr ('':'' @ py_format x))) '', ''
      = Inr (PStr (str_join '', '' (map (\<lambda>x. '':'' @ py_format x) ?ks)))"
    by (simp only: joinmap_PList py_join_texts)
  ultimately show ?thesis
    by (simp add: Table_insert_def comp_def split_def)
qed

lemma Table_insert_other_key:
  assumes "\<forall>(k, v) \<in> set data. hashable k" and "\<exists>(k, v) \<in> set data. py_type k \<noteq> T_str"
  shows "Table_insert self data replace = Inl TypeError"
proof -
  let ?ks = "map fst data"
  from assms(1) have "map (\<lambda>x. ds_name x False) ?ks = map Inr ?ks"
    by (auto simp: hashable_not_DSObject ds_name_literal)
  moreover from assms(2) have "\<exists>k \<in> set ?ks. py_type k \<noteq> T_str"
    by force
  ultimately have "joinmap (PList ?ks) (\<lambda>x. ds_name x False) '', '' = Inl TypeError"
    using py_join_other [of ?ks "'', ''"] by (simp only: joinmap_PList)
  then show ?thesis
    by (simp add: Table_insert_def)
qed

text \<open>
  Claim C4, as the code has it. When every key of the data mapping is of the type
  \<^verbatim>\<open>str\<close>, \<^verbatim>\<open>Table.insert\<close> returns the pair of the text
  \<^verbatim>\<open>INSERT INTO <name> (<keys>) VALUES(:<key>, ...);\<close>, with \<^verbatim>\<open>REPLACE\<close> for
  \<^verbatim>\<open>INSERT\<close> when \<^verbatim>\<open>replace\<close> is true, the keys in the order of the mapping and
  one named placeholder for each, and of the data mapping as it was given. The name is put
  as the f-string formats it. When the keys are hashable, as the keys of a dictionary are,
  and one of them is of another type (\<^verbatim>\<open>None\<close>, a boolean, an integer or a float), the
  call raises \<^verbatim>\<open>TypeError\<close>.
\<close>

theorem Table_insert_text:
  "((\<forall>(k, v) \<in> set data. py_type k = T_str) \<longrightarrow>
     Table_insert self data replace =
       Inr ((if replace then ''REPLACE'' else ''INSERT'') @ '' INTO ''
            @ py_format (name_value (Table.name self))
            @ '' ('' @ str_join '', '' (map (\<lambda>(k, v). py_format k) data)
            @ '') VALUES('' @ str_join '', '' (map (\<lambda>(k, v). '':'' @ py_format k) data) @ '');'',
            data))
   \<and> ((\<forall>(k, v) \<in> set data. hashable k) \<and> (\<exists>(k, v) \<in> set data. py_type k \<noteq> T_str) \<longrightarrow>
        Table_insert self data replace = Inl TypeError)"
  using Table_insert_text_keys [of data self replace] Table_insert_other_key [of data self replace]
  by (simp add: isinstance_str_exact)

theorem Table_insert_text_witness:
  "Table_insert (Table [] (Some ''users'') [] ''Main'')
        [(PStr ''id'', PInt 1), (PStr ''name'', PStr ''alice'')] False
      = Inr (''INSERT INTO users (id, name) VALUES(:id, :name);'',
             [(PStr ''id'', PInt 1), (PStr ''name'', PStr ''alice'')])
   \<and> Table_insert (Table [] (Some ''users'') [] ''Main'')
        [(PStr ''id'', PInt 1), (PStr ''name'', PStr ''alice'')] True
      = Inr (''REPLACE INTO users (id, name) VALUES(:id, :name);'',
             [(PStr ''id'', PInt 1), (PStr ''name'', PStr ''alice'')])
   \<and> list_all (\<lambda>(k, v). hashable k) [(PStr ''name'', PStr ''alice''), (PBool True, PInt 1)]
   \<and> list_ex (\<lambda>(k, v). py_type k \<noteq> T_str) [(PStr ''name'', PStr ''alice''), (PBool True, PInt 1)]
   \<and> Table_insert (Table [] (Some ''users'') [] ''Main'')
        [(PStr ''name'', PStr ''alice''), (PBool True, PInt 1)] False = Inl TypeError"
  using Table_insert_text [of "[(PStr ''id'', PInt 1), (PStr ''name'', PStr ''alice'')]"
      "Table [] (Some ''users'') [] ''Main''" False]
    Table_insert_text [of "[(PStr ''id'', PInt 1), (PStr ''name'', PStr ''alice'')]"
      "Table [] (Some ''users'') [] ''Main''" True]
    Table_insert_text [of "[(PStr ''name'', PStr ''alice''), (PBool True, PInt 1)]"
      "Table [] (Some ''users'') [] ''Main''" False]
  by simp

text \<open>
  Claim C4 as stated fails on a mapping with a key that is not text: \<^verbatim>\<open>ds_name\<close>
  returns the key \<^verbatim>\<open>1\<close> as it is, and \<^verbatim>\<open>str.join\<close> raises \<^verbatim>\<open>TypeError\<close> on it.
\<close>

theorem Table_insert_int_key_counterexample:
  "Table_insert (Table [] (Some ''users'') [] ''Main'') [(PInt 1, PStr ''alice'')] False
   = Inl TypeError"
  by (simp add: Table_insert_def joinmap_def py_join_def)

subsection \<open>The registration directory\<close>

text \<open>
  Claim C6, as the code has it. \<^verbatim>\<open>Database.table\<close> returns a \<^verbatim>\<open>Table\<close> object as
  it is; for a name it returns what the directory holds under that name for the kind
  \<^verbatim>\<open>Table\<close>, which after the construction of a table with that name is that table;
  and for a name that the directory does not hold it fails with the \<^verbatim>\<open>KeyError\<close> of
  the dictionary lookup: the module has no \<^verbatim>\<open>UnknownTable\<close> error.
\<close>

theorem Database_table_resolution:
  "Database_table db (TableObject t) = Inr (RTable t)
   \<and> (information_schema db ''Table'' (PStr n) = Some r \<longrightarrow>
        Database_table db (TableName n) = Inr r)
   \<and> Database_table (snd (Table_init db cols (Some n) cons sch)) (TableName n)
       = Inr (RTable (fst (Table_init db cols (Some n) cons sch)))
   \<and> (information_schema db ''Table'' (PStr n) = None \<longrightarrow>
        Database_table db (TableName n) = Inl KeyError)"
  by (simp add: Table_init_def RegisteredObject_post_init_def Let_def)

theorem Database_table_resolution_witness:
  "information_schema empty_Database ''Table'' (PStr ''orders'') = None
   \<and> Database_table empty_Database (TableName ''orders'') = Inl KeyError
   \<and> Database_table empty_Database (TableObject (Table [] (Some ''users'') [] ''Main''))
       = Inr (RTable (Table [] (Some ''users'') [] ''Main''))
   \<and> Database_table (snd (Table_init empty_Database [] (Some ''orders'') [] ''Main''))
        (TableName ''orders'') = Inr (RTable (Table [] (Some ''orders'') [] ''Main''))"
  using Database_table_resolution [of empty_Database "Table [] (Some ''users'') [] ''Main''"
      "''orders''" "RTable (Table [] None [] [])" "[]" "[]" "''Main''"]
  by (simp add: empty_Database_def Table_init_def RegisteredObject_post_init_def Let_def)

text \<open>
  Claim C6 as stated fails on a name that was never registered: the lookup raises
  \<^verbatim>\<open>KeyError\<close>, not an \<^verbatim>\<open>UnknownTable\<close> error.
\<close>

theorem Database_table_absent_counterexample:
  "Database_table empty_Database (TableName ''users'') = Inl KeyError
   \<and> Database_table empty_Database (TableName ''users'') \<noteq> Inl UnknownTable"
  by (simp add: empty_Database_def)

subsection \<open>Table.select and Table.delete\<close>

lemma joinmap_ds_qname_columns:
  "joinmap (PList (map PColumn cs)) ds_qname sep
   = Inr (PStr (str_join sep (map Column_identifier cs)))"
proof -
  have "map ds_qname (map PColumn cs) = map (\<lambda>c. Inr (PStr (Column_identifier c))) cs"
    by (simp add: ds_qname_def)
  then show ?thesis
    by (simp only: joinmap_PList py_join_texts)
qed

text \<open>
  Claim C9. With \<^verbatim>\<open>where=None\<close>, \<^verbatim>\<open>ds_where\<close> builds a \<^verbatim>\<open>Where\<close> object that
  renders as the empty text, and for every table \<^verbatim>\<open>Table.select\<close> and
  \<^verbatim>\<open>Table.delete\<close> return: the text ends after the table name, a space, a line break
  and a space, with no \<^verbatim>\<open>WHERE\<close> clause.
\<close>

theorem select_delete_without_where:
  "ds_sql (ds_where WhereNone) = Inr (PStr [])
   \<and> Table_select self WhereNone None =
       Inr (''SELECT '' @ str_join '', '' (map Column_identifier (Table.column self))
            @ '' '' @ [CHR 0x0A] @ '' FROM '' @ py_format (name_value (Table.name self))
            @ '' '' @ [CHR 0x0A] @ '' '')
   \<and> Table_delete self WhereNone =
       Inr (''DELETE FROM '' @ py_format (name_value (Table.name self))
            @ '' '' @ [CHR 0x0A] @ '' '', WhereNone)"
  by (simp add: Table_select_def Table_delete_def joinmap_ds_qname_columns)

text \<open>
  Claim C7, as the code has it. For the table \<^verbatim>\<open>users\<close> with the columns \<^verbatim>\<open>id\<close>
  (\<^verbatim>\<open>INTEGER\<close>, primary key) and \<^verbatim>\<open>name\<close> (\<^verbatim>\<open>TEXT\<close>, not nullable), built by
  the constructors, \<^verbatim>\<open>select(where={"name": "alice"})\<close> gives the selected columns
  qualified with the table name and the table in the \<^verbatim>\<open>FROM\<close> clause; the comparison
  of the \<^verbatim>\<open>WHERE\<close> clause has the key of the mapping as it was written, \<^verbatim>\<open>name\<close>,
  and the value in single quotes.
\<close>

theorem users_select_text:
  "(let (id_column, db1) = Column_init empty_Database ''id'' ''INTEGER'' False True True;
        (name_column, db2) = Column_init db1 ''name'' ''TEXT'' False False False;
        (users, db3) = Table_init db2 [id_column, name_column] (Some ''users'') [] ''Main''
    in Table_select users (WhereDict [(PStr ''name'', PStr ''alice'')]) None)
   = Inr (''SELECT users.id, users.name '' @ [CHR 0x0A] @ '' FROM users '' @ [CHR 0x0A]
          @ '' WHERE name = '' @ [CHR 0x27] @ ''alice'' @ [CHR 0x27])"
  by (simp add: Column_init_def Table_init_def Table_select_def Let_def joinmap_def
      py_join_def ds_qname_def Column_identifier_def clause_list_def Comparison_sql_def
      ds_quote_def)

text \<open>
  Claim C7 as stated fails: the text of the claim, with \<^verbatim>\<open>users.name\<close> in the
  comparison, is not the text that \<^verbatim>\<open>select\<close> returns.
\<close>

theorem users_select_qualified_counterexample:
  "(let (id_column, db1) = Column_init empty_Database ''id'' ''INTEGER'' False True True;
        (name_column, db2) = Column_init db1 ''name'' ''TEXT'' False False False;
        (users, db3) = Table_init db2 [id_column, name_column] (Some ''users'') [] ''Main''
    in Table_select users (WhereDict [(PStr ''name'', PStr ''alice'')]) None)
   \<noteq> Inr (''SELECT users.id, users.name '' @ [CHR 0x0A] @ '' FROM users '' @ [CHR 0x0A]
          @ '' WHERE users.name = '' @ [CHR 0x27] @ ''alice'' @ [CHR 0x27])"
  by (simp add: Column_init_def Table_init_def Table_select_def Let_def joinmap_def
      py_join_def ds_qname_def Column_identifier_def clause_list_def Comparison_sql_def
      ds_quote_def)

subsection \<open>Foreign keys\<close>

lemma ds_name_error: "ds_name x q = Inl e \<Longrightarrow> e = AttributeError"
  by (cases x) (auto split: if_splits)

lemma consume_error: "consume rs = Inl e \<Longrightarrow> Inl e \<in> set rs"
  by (induction rs rule: consume.induct) (auto split: sum.splits)

lemma str_items_error: "str_items vs = Inl e \<Longrightarrow> e = TypeError"
  by (induction vs rule: str_items.induct) (auto split: sum.splits)

lemma py_join_error: "py_join sep rs = Inl e \<Longrightarrow> e = TypeError \<or> Inl e \<in> set rs"
  by (auto simp: py_join_def split: sum.splits dest: consume_error str_items_error)

lemma joinmap_ds_name_error:
  assumes "joinmap ob (\<lambda>x. ds_name x q) sep = Inl e"
  shows "e = TypeError \<or> e = AttributeError"
proof (cases "isinstance_Iterable ob \<and> \<not> isinstance_str ob")
  case True
  with assms have "py_join sep (map (\<lambda>x. ds_name x q) (py_iter ob)) = Inl e"
    by (simp add: joinmap_def)
  then have "e = TypeError \<or> Inl e \<in> set (map (\<lambda>x. ds_name x q) (py_iter ob))"
    by (rule py_join_error)
  then show ?thesis
    using ds_name_error by force
next
  case False
  with assms have "ds_name ob q = Inl e"
    by (simp add: joinmap_def)
  then show ?thesis
    by (simp add: ds_name_error)
qed

lemma ForeignKey_name_error:
  assumes "ForeignKey_name fk = Inl e"
  shows "e = TypeError \<or> e = AttributeError"
proof -
  from assms have "joinmap (ForeignKey.column fk) (\<lambda>x. ds_name x False) '', '' = Inl e"
    by (simp add: ForeignKey_name_def split: sum.splits)
  then show ?thesis
    by (rule joinmap_ds_name_error)
qed

lemma ForeignKey_init_error:
  "ForeignKey_init db col t rcol = Inl e \<Longrightarrow> e = TypeError \<or> e = AttributeError"
  by (auto simp: ForeignKey_init_def Let_def split: sum.splits dest: ForeignKey_name_error)

lemma ForeignKey_name_columns:
  "ForeignKey_name (ForeignKey (PList (map PColumn cs)) t rcol)
   = Inr (''Fkey on '' @ str_join '', '' (map Column.name cs))"
proof -
  have "map (\<lambda>x. ds_name x False) (map PColumn cs) = map (\<lambda>c. Inr (PStr (Column.name c))) cs"
    by simp
  then have "joinmap (PList (map PColumn cs)) (\<lambda>x. ds_name x False) '', ''
      = Inr (PStr (str_join '', '' (map Column.name cs)))"
    by (simp only: joinmap_PList py_join_texts)
  then show ?thesis
    by (simp add: ForeignKey_name_def)
qed

text \<open>
  Claim C5, as the code has it. Constructing a \<^verbatim>\<open>ForeignKey\<close> never fails with a
  \<^verbatim>\<open>MalformedForeignKey\<close> error and compares no counts: whenever the name of the key
  can be formed, the object holds the local and the referenced columns as they were
  given and is registered under that name. A key made by \<^verbatim>\<open>Table.fkey()\<close> without a
  column has the primary key of the table on both sides, so there the counts are equal.
\<close>

theorem ForeignKey_init_unchecked:
  "ForeignKey_init db col t rcol \<noteq> Inl MalformedForeignKey
   \<and> (ForeignKey_name (ForeignKey col t rcol) = Inr n \<longrightarrow>
        ForeignKey_init db col t rcol =
          Inr (ForeignKey col t rcol,
               RegisteredObject_post_init db ''ForeignKey'' (PStr n)
                 (RForeignKey (ForeignKey col t rcol))))
   \<and> map_sum id fst (Table_fkey db t PNone)
       = Inr (ForeignKey (PList (Table_pkey t)) t (Table_pkey t))
   \<and> length (py_iter (PList (Table_pkey t))) = length (Table_pkey t)"
proof -
  have "ForeignKey_init db col t rcol \<noteq> Inl MalformedForeignKey"
    using ForeignKey_init_error [of db col t rcol MalformedForeignKey] by auto
  moreover have "map_sum id fst (Table_fkey db t PNone)
       = Inr (ForeignKey (PList (Table_pkey t)) t (Table_pkey t))"
    by (simp add: Table_fkey_def Table_pkey_def ForeignKey_init_def ForeignKey_name_columns Let_def)
  ultimately show ?thesis
    by (simp add: ForeignKey_init_def Let_def)
qed

theorem ForeignKey_init_unchecked_witness:
  "ForeignKey_name (ForeignKey (PList [PStr ''owner'']) (Table [] (Some ''users'') [] ''Main'')
      [PStr ''id'']) = Inr ''Fkey on owner''
   \<and> map_sum id fst (ForeignKey_init empty_Database (PList [PStr ''owner''])
        (Table [] (Some ''users'') [] ''Main'') [PStr ''id''])
     = Inr (ForeignKey (PList [PStr ''owner'']) (Table [] (Some ''users'') [] ''Main'')
        [PStr ''id''])"
  using ForeignKey_init_unchecked [of empty_Database "PList [PStr ''owner'']"
      "Table [] (Some ''users'') [] ''Main''" "[PStr ''id'']" "''Fkey on owner''"]
  by (simp add: ForeignKey_init_def ForeignKey_name_def joinmap_def py_join_def Let_def)

text \<open>
  Claim C5 as stated fails: a \<^verbatim>\<open>ForeignKey\<close> with two local columns and one
  referenced column is constructed without an error.
\<close>

theorem ForeignKey_mismatch_counterexample:
  "length (py_iter (PList [PStr ''a'', PStr ''b''])) \<noteq> length [PStr ''id'']
   \<and> ForeignKey_init empty_Database (PList [PStr ''a'', PStr ''b''])
        (Table [] (Some ''users'') [] ''Main'') [PStr ''id''] \<noteq> Inl MalformedForeignKey
   \<and> map_sum id fst (ForeignKey_init empty_Database (PList [PStr ''a'', PStr ''b''])
        (Table [] (Some ''users'') [] ''Main'') [PStr ''id''])
     = Inr (ForeignKey (PList [PStr ''a'', PStr ''b'']) (Table [] (Some ''users'') [] ''Main'')
        [PStr ''id''])"
  by (simp add: ForeignKey_init_def ForeignKey_name_def joinmap_def py_join_def Let_def)

end
